theory Spec2Isabelle
  imports Main "HOL-Library.Char_ord" "HOL-Library.List_Lexorder"
begin

section \<open>Python values, exceptions and the two libraries\<close>

text \<open>
  The client (\<^verbatim>\<open>SEC_API.py\<close>) fetches a JSON document, walks it with Python's own
  subscripting, \<^verbatim>\<open>.get\<close>, \<^verbatim>\<open>.items()\<close> and iteration, and hands a list of dicts
  (or the document itself) to \<^verbatim>\<open>pandas.DataFrame.from_records\<close>.

  A parsed JSON document is a \<open>pyval\<close>. A dict is an association list in the order of
  the document's keys; \<^verbatim>\<open>json.loads\<close> never yields a dict with a repeated key, so the
  dicts of a real document have distinct keys (lookup takes the first binding).
  A float is kept by its \<^verbatim>\<open>repr\<close>, which identifies it; \<^verbatim>\<open>np.nan\<close> is the float whose
  repr is \<^verbatim>\<open>nan\<close>. Strings are HOL strings (code points below 256).
\<close>

datatype pyval =
    PNone
  | PBool bool
  | PInt int
  | PFloat string
  | PStr string
  | PList "pyval list"
  | PDict "(string \<times> pyval) list"

definition nan :: pyval where
  "nan = PFloat ''nan''"

text \<open>
  The exceptions that can leave an operation. \<open>RequestException\<close> stands for what
  \<^verbatim>\<open>requests.get\<close> raises when the exchange does not complete (connection failure,
  timeout); \<open>JSONDecodeError\<close> is raised by \<^verbatim>\<open>Response.json()\<close> on a body that is not JSON.
\<close>

datatype py_error =
    RequestException
  | JSONDecodeError
  | KeyError string
  | TypeError
  | AttributeError
  | ValueError


fun is_format_error :: "py_error \<Rightarrow> bool" where
  "is_format_error (KeyError k) = True"
| "is_format_error TypeError = True"
| "is_format_error AttributeError = True"
| "is_format_error ValueError = True"
| "is_format_error _ = False"

definition andthen :: "'e + 'a \<Rightarrow> ('a \<Rightarrow> 'e + 'b) \<Rightarrow> 'e + 'b" where
  "andthen m f = (case m of Inl e \<Rightarrow> Inl e | Inr v \<Rightarrow> f v)"

subsection \<open>Python's operations on a parsed document\<close>

text \<open>\<^verbatim>\<open>x[k]\<close> with a string key: a dict is looked up, anything else is a TypeError.\<close>

fun getitem :: "pyval \<Rightarrow> string \<Rightarrow> py_error + pyval" where
  "getitem (PDict d) k = (case map_of d k of None \<Rightarrow> Inl (KeyError k) | Some v \<Rightarrow> Inr v)"
| "getitem _ k = Inl TypeError"

text \<open>\<^verbatim>\<open>x.get(k, default)\<close>: only a dict has the method.\<close>

fun dict_get :: "pyval \<Rightarrow> string \<Rightarrow> pyval \<Rightarrow> py_error + pyval" where
  "dict_get (PDict d) k dflt = Inr (case map_of d k of None \<Rightarrow> dflt | Some v \<Rightarrow> v)"
| "dict_get _ k dflt = Inl AttributeError"

text \<open>\<^verbatim>\<open>x.items()\<close>: only a dict has the method.\<close>

fun items :: "pyval \<Rightarrow> py_error + (string \<times> pyval) list" where
  "items (PDict d) = Inr d"
| "items _ = Inl AttributeError"

text \<open>
  \<^verbatim>\<open>for y in x\<close>: a list yields its elements, a dict its keys, a string its characters;
  nothing else is iterable.
\<close>

fun iter :: "pyval \<Rightarrow> py_error + pyval list" where
  "iter (PList xs) = Inr xs"
| "iter (PDict d) = Inr (map (\<lambda>kv. PStr (fst kv)) d)"
| "iter (PStr s) = Inr (map (\<lambda>c. PStr [c]) s)"
| "iter _ = Inl TypeError"

text \<open>
  One \<^verbatim>\<open>for\<close> clause of a list comprehension: the body is run on each element in order,
  the rows are appended, and the first exception ends the comprehension.
\<close>

fun for_each :: "('a \<Rightarrow> py_error + 'b list) \<Rightarrow> 'a list \<Rightarrow> py_error + 'b list" where
  "for_each f [] = Inr []"
| "for_each f (x # xs) =
     andthen (f x) (\<lambda>ys. andthen (for_each f xs) (\<lambda>zs. Inr (ys @ zs)))"

text \<open>
  A dict display \<^verbatim>\<open>{k1: e1, k2: e2, ...}\<close>: the values are evaluated left to right and
  the first exception leaves the display.
\<close>

fun dict_display :: "(string \<times> (py_error + pyval)) list \<Rightarrow> py_error + (string \<times> pyval) list" where
  "dict_display [] = Inr []"
| "dict_display ((k, c) # rest) =
     andthen c (\<lambda>v. andthen (dict_display rest) (\<lambda>r. Inr ((k, v) # r)))"

subsection \<open>The transport\<close>

text \<open>
  \<^verbatim>\<open>requests.get(url, headers=headers).json()\<close>. The exchange either does not complete,
  or completes with a status code and a body; \<open>None\<close> is a body that is not JSON.
  The code calls \<^verbatim>\<open>.json()\<close> on whatever response comes back: the status is not read.
\<close>

record request =
  url :: string
  headers :: "(string \<times> string) list"

datatype exchange = Failed | Completed nat "pyval option"

type_synonym transport = "request \<Rightarrow> exchange"

definition get_json :: "transport \<Rightarrow> request \<Rightarrow> py_error + pyval" where
  "get_json send req =
     (case send req of
        Failed \<Rightarrow> Inl RequestException
      | Completed status body \<Rightarrow>
          (case body of None \<Rightarrow> Inl JSONDecodeError | Some raw_json \<Rightarrow> Inr raw_json))"

subsection \<open>Data frames\<close>

text \<open>
  A \<^verbatim>\<open>DataFrame\<close>: row labels, column labels, and the cells row by row. Cells hold the
  Python values they were built from; the column dtypes pandas infers afterwards are
  not modelled.
\<close>

record dataframe =
  index :: "pyval list"
  columns :: "pyval list"
  rows :: "pyval list list"

definition range_index :: "nat \<Rightarrow> pyval list" where
  "range_index n = map (\<lambda>i. PInt (int i)) [0..<n]"

text \<open>The value of row \<open>i\<close> under the column labelled \<open>c\<close>.\<close>

definition cell :: "dataframe \<Rightarrow> nat \<Rightarrow> string \<Rightarrow> pyval option" where
  "cell df i c =
     (if i < length (rows df) then map_of (zip (columns df) (rows df ! i)) (PStr c) else None)"

text \<open>The column labelled \<open>c\<close>, from the first row to the last.\<close>

definition column :: "dataframe \<Rightarrow> string \<Rightarrow> pyval option list" where
  "column df c = map (\<lambda>i. cell df i c) [0..<length (rows df)]"

text \<open>
  Labels in the order they are first seen, as pandas collects the keys of a list of
  dicts and the union of several key lists.
\<close>

definition first_seen :: "'a list \<Rightarrow> 'a list" where
  "first_seen xs = foldl (\<lambda>acc x. if x \<in> set acc then acc else acc @ [x]) [] xs"

text \<open>
  \<^verbatim>\<open>DataFrame.from_records\<close> on a list of dicts: the columns are the keys in the order
  first seen, each dict is one row, and a key a dict lacks is NaN in its row.
\<close>

definition from_records_list :: "(string \<times> pyval) list list \<Rightarrow> dataframe" where
  "from_records_list df_list =
     (let cols = first_seen (concat (map (map fst) df_list)) in
      \<lparr> index = range_index (length df_list),
        columns = map PStr cols,
        rows = map (\<lambda>r. map (\<lambda>c. case map_of r c of None \<Rightarrow> nan | Some v \<Rightarrow> v) cols) df_list \<rparr>)"

text \<open>
  \<^verbatim>\<open>DataFrame.from_records\<close> on a dict, \<^verbatim>\<open>transpose\<close>, \<^verbatim>\<open>reset_index(drop=True)\<close>, the
  assignment to \<^verbatim>\<open>df.columns\<close>, and the column operations of \<^verbatim>\<open>get_companytickers\<close>.

  Two things the libraries do are left open, as the fields of a \<open>library\<close>: Python's
  \<^verbatim>\<open>str\<close> of a list or dict (its \<^verbatim>\<open>repr\<close>), and what \<^verbatim>\<open>from_records\<close> does with data that
  is neither a dict of arrays, a dict of dicts nor a list of dicts. Every theorem
  below holds for all libraries.
\<close>

record library =
  repr_container :: "pyval \<Rightarrow> string"
  from_records_other :: "pyval \<Rightarrow> py_error + dataframe"

fun entries :: "pyval \<Rightarrow> (string \<times> pyval) list" where
  "entries (PDict d) = d"
| "entries _ = []"

fun elements :: "pyval \<Rightarrow> pyval list" where
  "elements (PList xs) = xs"
| "elements _ = []"

fun is_dict :: "pyval \<Rightarrow> bool" where
  "is_dict (PDict d) = True"
| "is_dict _ = False"

fun is_list :: "pyval \<Rightarrow> bool" where
  "is_list (PList xs) = True"
| "is_list _ = False"

text \<open>The value under a key, NaN when the key is absent: \<^verbatim>\<open>d.get(k, np.nan)\<close> on a dict.\<close>

definition field :: "pyval \<Rightarrow> string \<Rightarrow> pyval" where
  "field v k = (case map_of (entries v) k of None \<Rightarrow> nan | Some x \<Rightarrow> x)"

text \<open>
  \<^verbatim>\<open>from_records\<close> on a dict sorts the keys into the columns and takes each value as
  that column's array. Arrays that are all lists must have one length, and give one
  row per position. Arrays that are all dicts are aligned on the union of their keys,
  in the order first seen, one row per key, a missing key giving NaN.
\<close>

definition from_records_dict :: "library \<Rightarrow> (string \<times> pyval) list \<Rightarrow> py_error + dataframe" where
  "from_records_dict lib d =
     (let cols = sort_key fst d; arrays = map snd cols in
      if d = [] then Inr \<lparr> index = [], columns = [], rows = [] \<rparr>
      else if list_all is_list arrays then
        (let n = length (elements (hd arrays)) in
         if list_all (\<lambda>a. length (elements a) = n) arrays
         then Inr \<lparr> index = range_index n,
                    columns = map (\<lambda>kv. PStr (fst kv)) cols,
                    rows = map (\<lambda>i. map (\<lambda>a. elements a ! i) arrays) [0..<n] \<rparr>
         else Inl ValueError)
      else if list_all is_dict arrays then
        (let idx = first_seen (concat (map (\<lambda>a. map fst (entries a)) arrays)) in
         Inr \<lparr> index = map PStr idx,
               columns = map (\<lambda>kv. PStr (fst kv)) cols,
               rows = map (\<lambda>k. map (\<lambda>a. field a k) arrays) idx \<rparr>)
      else from_records_other lib (PDict d))"

definition from_records :: "library \<Rightarrow> pyval \<Rightarrow> py_error + dataframe" where
  "from_records lib data =
     (case data of
        PDict d \<Rightarrow> from_records_dict lib d
      | PList xs \<Rightarrow>
          if list_all is_dict xs then Inr (from_records_list (map entries xs))
          else from_records_other lib data
      | _ \<Rightarrow> from_records_other lib data)"

definition transpose_df :: "dataframe \<Rightarrow> dataframe" where
  "transpose_df df =
     \<lparr> index = columns df,
       columns = index df,
       rows = map (\<lambda>j. map (\<lambda>r. r ! j) (rows df)) [0..<length (columns df)] \<rparr>"

definition reset_index_drop :: "dataframe \<Rightarrow> dataframe" where
  "reset_index_drop df = df \<lparr> index := range_index (length (index df)) \<rparr>"

text \<open>\<^verbatim>\<open>df.columns = names\<close>: a ValueError unless there is one name per column.\<close>

definition set_columns :: "dataframe \<Rightarrow> pyval list \<Rightarrow> py_error + dataframe" where
  "set_columns df names =
     (if length names = length (columns df) then Inr (df \<lparr> columns := names \<rparr>)
      else Inl ValueError)"

text \<open>\<^verbatim>\<open>df[c]\<close> and \<^verbatim>\<open>df[c] = values\<close>.\<close>

definition get_column :: "dataframe \<Rightarrow> string \<Rightarrow> py_error + pyval list" where
  "get_column df c =
     (if PStr c \<in> set (columns df)
      then Inr (map (\<lambda>r. case map_of (zip (columns df) r) (PStr c) of None \<Rightarrow> nan | Some v \<Rightarrow> v)
                  (rows df))
      else Inl (KeyError c))"

definition set_column :: "dataframe \<Rightarrow> string \<Rightarrow> pyval list \<Rightarrow> dataframe" where
  "set_column df c vals =
     (if PStr c \<in> set (columns df)
      then df \<lparr> rows := map2 (\<lambda>r v. map2 (\<lambda>h x. if h = PStr c then v else x) (columns df) r)
                           (rows df) vals \<rparr>
      else df \<lparr> columns := columns df @ [PStr c],
               rows := map2 (\<lambda>r v. r @ [v]) (rows df) vals \<rparr>)"

text \<open>Python's \<^verbatim>\<open>str\<close>: an integer in decimal, a string as it is.\<close>

fun digits :: "nat \<Rightarrow> string" where
  "digits n =
     (if n < 10 then [char_of (48 + n)] else digits (n div 10) @ [char_of (48 + n mod 10)])"

declare digits.simps [simp del]

definition str_int :: "int \<Rightarrow> string" where
  "str_int i = (if i < 0 then CHR ''-'' # digits (nat (- i)) else digits (nat i))"

fun py_str :: "library \<Rightarrow> pyval \<Rightarrow> string" where
  "py_str lib PNone = ''None''"
| "py_str lib (PBool b) = (if b then ''True'' else ''False'')"
| "py_str lib (PInt i) = str_int i"
| "py_str lib (PFloat r) = r"
| "py_str lib (PStr s) = s"
| "py_str lib v = repr_container lib v"

text \<open>\<^verbatim>\<open>Series.astype("str")\<close>, \<^verbatim>\<open>Series.str.pad(width, fillchar=c)\<close> (on the left) and \<^verbatim>\<open>s + Series\<close>.\<close>

definition astype_str :: "library \<Rightarrow> pyval list \<Rightarrow> string list" where
  "astype_str lib col = map (py_str lib) col"

definition str_pad :: "nat \<Rightarrow> char \<Rightarrow> string list \<Rightarrow> string list" where
  "str_pad width fillchar col = map (\<lambda>s. replicate (width - length s) fillchar @ s) col"

definition str_add :: "string \<Rightarrow> string list \<Rightarrow> string list" where
  "str_add prefix col = map (\<lambda>s. prefix @ s) col"

section \<open>The five operations\<close>

subsection \<open>get\_companytickers\<close>

definition companytickers_request :: request where
  "companytickers_request =
     \<lparr> url = ''https://www.sec.gov/files/company_tickers.json'', headers = [] \<rparr>"

definition get_companytickers :: "library \<Rightarrow> transport \<Rightarrow> bool \<Rightarrow> py_error + dataframe" where
  "get_companytickers lib send parse_cik =
     andthen (get_json send companytickers_request) (\<lambda>raw_json.
     andthen (from_records lib raw_json) (\<lambda>df0.
     andthen (set_columns (reset_index_drop (transpose_df df0))
                [PStr ''cik'', PStr ''ticker'', PStr ''title'']) (\<lambda>df.
       if parse_cik then
         andthen (get_column df ''cik'') (\<lambda>col.
           Inr (set_column df ''cik''
                  (map PStr (str_add ''CIK'' (str_pad 10 CHR ''0'' (astype_str lib col))))))
       else Inr df)))"

subsection \<open>get\_submissions\<close>

definition submissions_request :: "string \<Rightarrow> string \<Rightarrow> request" where
  "submissions_request cik header_email =
     \<lparr> url = ''https://data.sec.gov/submissions/'' @ cik @ ''.json'',
       headers = [(''User-Agent'', header_email)] \<rparr>"

definition get_submissions :: "library \<Rightarrow> transport \<Rightarrow> string \<Rightarrow> string \<Rightarrow> py_error + dataframe" where
  "get_submissions lib send cik header_email =
     andthen (get_json send (submissions_request cik header_email)) (\<lambda>raw_json.
     andthen (getitem raw_json ''filings'') (\<lambda>filings.
     andthen (getitem filings ''recent'') (\<lambda>df_list.
       from_records lib df_list)))"

subsection \<open>get\_companyconcept\<close>

definition companyconcept_request :: "string \<Rightarrow> string \<Rightarrow> string \<Rightarrow> string \<Rightarrow> request" where
  "companyconcept_request cik header_email taxonomy tag =
     \<lparr> url = ''https://data.sec.gov/api/xbrl/companyconcept/'' @ cik @ ''/'' @ taxonomy
               @ ''/'' @ tag @ ''.json'',
       headers = [(''User-Agent'', header_email)] \<rparr>"

definition companyconcept_row :: "pyval \<Rightarrow> string \<Rightarrow> pyval \<Rightarrow> py_error + (string \<times> pyval) list" where
  "companyconcept_row raw_json key_units row_list = dict_display
     [(''cik'', getitem raw_json ''cik''),
      (''taxonomy'', getitem raw_json ''taxonomy''),
      (''tag'', getitem raw_json ''tag''),
      (''label'', getitem raw_json ''label''),
      (''description'', getitem raw_json ''description''),
      (''entityName'', getitem raw_json ''entityName''),
      (''units'', Inr (PStr key_units)),
      (''end'', dict_get row_list ''end'' nan),
      (''val'', dict_get row_list ''val'' nan),
      (''accn'', dict_get row_list ''accn'' nan),
      (''fy'', dict_get row_list ''fy'' nan),
      (''fp'', dict_get row_list ''fp'' nan),
      (''form'', dict_get row_list ''form'' nan),
      (''filed'', dict_get row_list ''filed'' nan),
      (''frame'', dict_get row_list ''frame'' nan)]"

definition companyconcept_records :: "pyval \<Rightarrow> py_error + (string \<times> pyval) list list" where
  "companyconcept_records raw_json =
     andthen (getitem raw_json ''units'') (\<lambda>units.
     andthen (items units) (\<lambda>unit_items.
       for_each (\<lambda>(key_units, value_units).
         andthen (iter value_units) (\<lambda>obs.
           for_each (\<lambda>row_list.
             andthen (companyconcept_row raw_json key_units row_list) (\<lambda>r. Inr [r])) obs))
         unit_items))"

definition get_companyconcept ::
  "transport \<Rightarrow> string \<Rightarrow> string \<Rightarrow> string \<Rightarrow> string \<Rightarrow> py_error + dataframe" where
  "get_companyconcept send cik header_email taxonomy tag =
     andthen (get_json send (companyconcept_request cik header_email taxonomy tag)) (\<lambda>raw_json.
     andthen (companyconcept_records raw_json) (\<lambda>df_list.
       Inr (from_records_list df_list)))"

subsection \<open>get\_companyfacts\<close>

definition companyfacts_request :: "string \<Rightarrow> string \<Rightarrow> request" where
  "companyfacts_request cik header_email =
     \<lparr> url = ''https://data.sec.gov/api/xbrl/companyfacts/'' @ cik @ ''.json'',
       headers = [(''User-Agent'', header_email)] \<rparr>"

definition companyfacts_row ::
  "pyval \<Rightarrow> string \<Rightarrow> string \<Rightarrow> pyval \<Rightarrow> string \<Rightarrow> pyval \<Rightarrow> py_error + (string \<times> pyval) list" where
  "companyfacts_row raw_json key_taxonomy key_tag value_tag key_units row_list = dict_display
     [(''cik'', getitem raw_json ''cik''),
      (''entityName'', getitem raw_json ''entityName''),
      (''taxonomy'', Inr (PStr key_taxonomy)),
      (''tag'', Inr (PStr key_tag)),
      (''label'', getitem value_tag ''label''),
      (''description'', getitem value_tag ''description''),
      (''units'', Inr (PStr key_units)),
      (''end'', dict_get row_list ''end'' nan),
      (''val'', dict_get row_list ''val'' nan),
      (''accn'', dict_get row_list ''accn'' nan),
      (''fy'', dict_get row_list ''fy'' nan),
      (''fp'', dict_get row_list ''fp'' nan),
      (''form'', dict_get row_list ''form'' nan),
      (''filed'', dict_get row_list ''filed'' nan),
      (''frame'', dict_get row_list ''frame'' nan)]"

definition companyfacts_records :: "pyval \<Rightarrow> py_error + (string \<times> pyval) list list" where
  "companyfacts_records raw_json =
     andthen (getitem raw_json ''facts'') (\<lambda>facts.
     andthen (items facts) (\<lambda>taxonomy_items.
       for_each (\<lambda>(key_taxonomy, value_taxonomy).
         andthen (items value_taxonomy) (\<lambda>tag_items.
           for_each (\<lambda>(key_tag, value_tag).
             andthen (getitem value_tag ''units'') (\<lambda>units.
             andthen (items units) (\<lambda>unit_items.
               for_each (\<lambda>(key_units, value_units).
                 andthen (iter value_units) (\<lambda>obs.
                   for_each (\<lambda>row_list.
                     andthen (companyfacts_row raw_json key_taxonomy key_tag value_tag
                                key_units row_list) (\<lambda>r. Inr [r])) obs))
                 unit_items)))
             tag_items))
         taxonomy_items))"

definition get_companyfacts :: "transport \<Rightarrow> string \<Rightarrow> string \<Rightarrow> py_error + dataframe" where
  "get_companyfacts send cik header_email =
     andthen (get_json send (companyfacts_request cik header_email)) (\<lambda>raw_json.
     andthen (companyfacts_records raw_json) (\<lambda>df_list.
       Inr (from_records_list df_list)))"

subsection \<open>get\_frames\<close>

definition frames_request :: "string \<Rightarrow> string \<Rightarrow> string \<Rightarrow> string \<Rightarrow> string \<Rightarrow> request" where
  "frames_request header_email taxonomy tag units period =
     \<lparr> url = ''https://data.sec.gov/api/xbrl/frames/'' @ taxonomy @ ''/'' @ tag @ ''/'' @ units
               @ ''/'' @ period @ ''.json'',
       headers = [(''User-Agent'', header_email)] \<rparr>"

definition frames_row :: "pyval \<Rightarrow> pyval \<Rightarrow> py_error + (string \<times> pyval) list" where
  "frames_row raw_json row_list = dict_display
     [(''taxonomy'', getitem raw_json ''taxonomy''),
      (''tag'', getitem raw_json ''tag''),
      (''ccp'', getitem raw_json ''ccp''),
      (''uom'', getitem raw_json ''uom''),
      (''label'', getitem raw_json ''label''),
      (''description'', getitem raw_json ''description''),
      (''accn'', dict_get row_list ''accn'' nan),
      (''cik'', dict_get row_list ''cik'' nan),
      (''entityName'', dict_get row_list ''entityName'' nan),
      (''loc'', dict_get row_list ''loc'' nan),
      (''end'', dict_get row_list ''end'' nan),
      (''val'', dict_get row_list ''val'' nan)]"

definition frames_records :: "pyval \<Rightarrow> py_error + (string \<times> pyval) list list" where
  "frames_records raw_json =
     andthen (getitem raw_json ''data'') (\<lambda>data.
     andthen (iter data) (\<lambda>data_items.
       for_each (\<lambda>row_list.
         andthen (frames_row raw_json row_list) (\<lambda>r. Inr [r])) data_items))"

definition get_frames ::
  "transport \<Rightarrow> string \<Rightarrow> string \<Rightarrow> string \<Rightarrow> string \<Rightarrow> string \<Rightarrow> py_error + dataframe" where
  "get_frames send header_email taxonomy tag units period =
     andthen (get_json send (frames_request header_email taxonomy tag units period)) (\<lambda>raw_json.
     andthen (frames_records raw_json) (\<lambda>df_list.
       Inr (from_records_list df_list)))"

subsection \<open>The operations as one family\<close>

text \<open>
  The class has five class methods and no state. An \<open>operation\<close> is one call of one of
  them with its arguments; \<open>run\<close> dispatches it.
\<close>

datatype operation =
    CompanyTickers bool
  | Submissions string string
  | CompanyConcept string string string string
  | CompanyFacts string string
  | Frames string string string string string


fun run :: "library \<Rightarrow> transport \<Rightarrow> operation \<Rightarrow> py_error + dataframe" where
  "run lib send (CompanyTickers parse_cik) = get_companytickers lib send parse_cik"
| "run lib send (Submissions cik header_email) = get_submissions lib send cik header_email"
| "run lib send (CompanyConcept cik header_email taxonomy tag) =
     get_companyconcept send cik header_email taxonomy tag"
| "run lib send (CompanyFacts cik header_email) = get_companyfacts send cik header_email"
| "run lib send (Frames header_email taxonomy tag units period) =
     get_frames send header_email taxonomy tag units period"

section \<open>What the specification says of the results\<close>

text \<open>
  The definitions of this section follow the specification's words, not the code: the
  documents it calls valid, the fields it calls optional, and the rows it describes.
  The theorems compare the operations with them.
\<close>

definition has_key :: "pyval \<Rightarrow> string \<Rightarrow> bool" where
  "has_key v k = (is_dict v \<and> map_of (entries v) k \<noteq> None)"

definition obs_fields :: "string list" where
  "obs_fields = [''end'', ''val'', ''accn'', ''fy'', ''fp'', ''form'', ''filed'', ''frame'']"



definition companyfacts_columns :: "string list" where
  "companyfacts_columns =
     [''cik'', ''entityName'', ''taxonomy'', ''tag'', ''label'', ''description'', ''units'']
     @ obs_fields"


text \<open>
  A table with the given column names and rows, numbered from 0. pandas gives a frame
  built from no records no columns at all.
\<close>

definition table :: "string list \<Rightarrow> pyval list list \<Rightarrow> dataframe" where
  "table cols rws =
     \<lparr> index = range_index (length rws),
       columns = (if rws = [] then [] else map PStr cols),
       rows = rws \<rparr>"

text \<open>A units mapping: unit name to an array of observations, each a JSON object.\<close>

definition valid_observations :: "pyval \<Rightarrow> bool" where
  "valid_observations v = (is_list v \<and> list_all is_dict (elements v))"

definition valid_units :: "pyval \<Rightarrow> bool" where
  "valid_units v = (is_dict v \<and> list_all (\<lambda>kv. valid_observations (snd kv)) (entries v))"



definition valid_tag :: "pyval \<Rightarrow> bool" where
  "valid_tag v =
     (list_all (has_key v) [''label'', ''description'', ''units''] \<and> valid_units (field v ''units''))"

definition valid_companyfacts :: "pyval \<Rightarrow> bool" where
  "valid_companyfacts raw =
     (list_all (has_key raw) [''cik'', ''entityName'', ''facts'']
      \<and> is_dict (field raw ''facts'')
      \<and> list_all (\<lambda>tx. is_dict (snd tx) \<and> list_all (\<lambda>tg. valid_tag (snd tg)) (entries (snd tx)))
           (entries (field raw ''facts'')))"

definition spec_companyfacts_rows :: "pyval \<Rightarrow> pyval list list" where
  "spec_companyfacts_rows raw =
     [ [field raw ''cik'', field raw ''entityName'', PStr tx, PStr tg, field tagv ''label'',
        field tagv ''description'', PStr u] @ map (field ob) obs_fields.
       (tx, tags) \<leftarrow> entries (field raw ''facts''), (tg, tagv) \<leftarrow> entries tags,
       (u, obs) \<leftarrow> entries (field tagv ''units''), ob \<leftarrow> elements obs ]"




definition valid_companytickers :: "pyval \<Rightarrow> bool" where
  "valid_companytickers raw =
     (is_dict raw \<and> entries raw \<noteq> [] \<and> list_all (\<lambda>kv. is_dict (snd kv)) (entries raw) \<and>
      length (first_seen (concat (map (\<lambda>kv. map fst (entries (snd kv))) (entries raw)))) = 3)"





subsection \<open>Documents that differ only in fields an operation does not read\<close>








section \<open>Example documents\<close>


definition example_facts :: pyval where
  "example_facts = PDict
     [(''cik'', PInt 320193), (''entityName'', PStr ''Apple Inc.''),
      (''facts'', PDict
         [(''dei'', PDict
             [(''EntityPublicFloat'', PDict
                 [(''label'', PStr ''Float''), (''description'', PStr ''Public float''),
                  (''units'', PDict [(''USD'', PList [PDict [(''val'', PInt 1)]]),
                                     (''EUR'', PList [PDict [(''val'', PInt 2)]])])])]),
          (''us-gaap'', PDict
             [(''Assets'', PDict
                 [(''label'', PStr ''Assets''), (''description'', PStr ''Sum of assets''),
                  (''units'', PDict [(''USD'', PList [PDict [(''val'', PInt 3)]]),
                                     (''shares'', PList [PDict [(''val'', PInt 4)]])])])])])]"

definition example_facts_no_cik :: pyval where
  "example_facts_no_cik = PDict
     [(''entityName'', PStr ''Apple Inc.''),
      (''facts'', PDict
         [(''us-gaap'', PDict
             [(''Assets'', PDict
                 [(''label'', PStr ''Assets''), (''description'', PStr ''Sum of assets''),
                  (''units'', PDict [(''USD'', PList [PDict [(''val'', PInt 3)]])])])])])]"

definition example_no_facts :: pyval where
  "example_no_facts = PDict [(''cik'', PInt 320193), (''entityName'', PStr ''Apple Inc.'')]"






subsection \<open>Reading a decimal numeral\<close>

text \<open>
  What the specification means by a string of decimal digits: every character is one of
  \<^verbatim>\<open>0\<close> to \<^verbatim>\<open>9\<close>, and the string read in base ten is the number.
\<close>

definition is_digit :: "char \<Rightarrow> bool" where
  "is_digit c = (48 \<le> (of_char c :: nat) \<and> (of_char c :: nat) \<le> 57)"

definition decimal_value :: "string \<Rightarrow> nat" where
  "decimal_value s = foldl (\<lambda>acc c. 10 * acc + (of_char c - 48)) 0 s"

definition example_tickers :: pyval where
  "example_tickers = PDict
     [(''0'', PDict [(''cik_str'', PInt 320193), (''ticker'', PStr ''AAPL''),
                     (''title'', PStr ''Apple Inc.'')]),
      (''1'', PDict [(''cik_str'', PInt 789019), (''ticker'', PStr ''MSFT''),
                     (''title'', PStr ''MICROSOFT CORP'')])]"


subsection \<open>Rows with a complete set of columns\<close>


section \<open>The operations on valid documents\<close>

subsection \<open>Helper lemmas: first-seen labels and frames built from uniform records\<close>

lemma foldl_first_seen_absorb:
  "set xs \<subseteq> set acc \<Longrightarrow> foldl (\<lambda>acc x. if x \<in> set acc then acc else acc @ [x]) acc xs = acc"
  by (induction xs arbitrary: acc) auto

lemma foldl_first_seen_fresh:
  "distinct xs \<Longrightarrow> set xs \<inter> set acc = {} \<Longrightarrow>
   foldl (\<lambda>acc x. if x \<in> set acc then acc else acc @ [x]) acc xs = acc @ xs"
  by (induction xs arbitrary: acc) auto

lemma first_seen_same_keys:
  assumes "distinct ks" "\<forall>r \<in> set rs. map fst r = ks"
  shows "first_seen (concat (map (map fst) rs)) = (if rs = [] then [] else ks)"
proof (cases rs)
  case Nil
  then show ?thesis by (simp add: first_seen_def)
next
  case (Cons r rs')
  with assms have r: "map fst r = ks" and rest: "\<forall>r \<in> set rs'. map fst r = ks" by auto
  have start: "foldl (\<lambda>acc x. if x \<in> set acc then acc else acc @ [x]) [] ks = ks"
    using foldl_first_seen_fresh[OF assms(1), of "[]"] by simp
  have "set (concat (map (map fst) rs')) \<subseteq> set ks"
    using rest by auto
  then have "foldl (\<lambda>acc x. if x \<in> set acc then acc else acc @ [x]) ks
               (concat (map (map fst) rs')) = ks"
    by (rule foldl_first_seen_absorb)
  with Cons r start show ?thesis
    by (simp add: first_seen_def)
qed

lemma map_of_row_cells:
  "distinct (map fst r) \<Longrightarrow>
   map (\<lambda>c. case map_of r c of None \<Rightarrow> d | Some v \<Rightarrow> v) (map fst r) = map snd r"
  by (induction r) (auto simp: rev_image_eqI)

lemma from_records_list_same_keys:
  assumes "distinct ks" "\<forall>r \<in> set rs. map fst r = ks"
  shows "from_records_list rs =
    \<lparr> index = range_index (length rs),
      columns = (if rs = [] then [] else map PStr ks),
      rows = map (map snd) rs \<rparr>"
proof -
  have "map (\<lambda>c. case map_of r c of None \<Rightarrow> nan | Some v \<Rightarrow> v) ks = map snd r"
    if "r \<in> set rs" for r
    using that assms map_of_row_cells[of r nan] by auto
  then show ?thesis
    using first_seen_same_keys[OF assms]
    by (auto simp: from_records_list_def Let_def)
qed

lemma from_records_list_table:
  assumes "distinct cols" "\<forall>r \<in> set rws. length r = length cols"
  shows "from_records_list (map (zip cols) rws) = table cols rws"
proof -
  have keys: "\<forall>r \<in> set (map (zip cols) rws). map fst r = cols"
    using assms(2) by auto
  have "map (map snd) (map (zip cols) rws) = rws"
    using assms(2) by (induction rws) auto
  then show ?thesis
    using from_records_list_same_keys[OF assms(1) keys]
    by (simp add: table_def)
qed

subsection \<open>Helper lemmas: comprehensions that raise nothing\<close>

lemma for_each_Inr:
  "\<forall>x \<in> set xs. f x = Inr (g x) \<Longrightarrow> for_each f xs = Inr (concat (map g xs))"
  by (induction xs) (auto simp: andthen_def)

lemma getitem_has_key: "has_key v k \<Longrightarrow> getitem v k = Inr (field v k)"
  by (cases v) (auto simp: has_key_def field_def)

lemma dict_get_is_dict: "is_dict v \<Longrightarrow> dict_get v k nan = Inr (field v k)"
  by (cases v) (auto simp: field_def)

lemma items_is_dict: "is_dict v \<Longrightarrow> items v = Inr (entries v)"
  by (cases v) auto

lemma iter_is_list: "is_list v \<Longrightarrow> iter v = Inr (elements v)"
  by (cases v) auto

lemma observations_rows:
  assumes "valid_observations obs" "\<And>ob. is_dict ob \<Longrightarrow> row ob = Inr (g ob)"
  shows "andthen (iter obs) (\<lambda>xs. for_each (\<lambda>row_list. andthen (row row_list) (\<lambda>r. Inr [r])) xs)
         = Inr (map g (elements obs))"
proof -
  have "\<forall>ob \<in> set (elements obs). andthen (row ob) (\<lambda>r. Inr [r]) = Inr [g ob]"
    using assms by (auto simp: valid_observations_def list_all_iff andthen_def)
  then have "for_each (\<lambda>row_list. andthen (row row_list) (\<lambda>r. Inr [r])) (elements obs)
             = Inr (concat (map (\<lambda>ob. [g ob]) (elements obs)))"
    by (rule for_each_Inr)
  moreover have "concat (map (\<lambda>ob. [g ob]) (elements obs)) = map g (elements obs)"
    by (induction "elements obs") auto
  ultimately show ?thesis
    using assms(1) by (simp add: valid_observations_def iter_is_list andthen_def)
qed

lemma units_rows:
  assumes "valid_units units"
    and "\<And>u ob. is_dict ob \<Longrightarrow> row u ob = Inr (g u ob)"
  shows "andthen (items units) (\<lambda>unit_items.
           for_each (\<lambda>(key_units, value_units).
             andthen (iter value_units) (\<lambda>obs.
               for_each (\<lambda>row_list. andthen (row key_units row_list) (\<lambda>r. Inr [r])) obs))
             unit_items)
         = Inr (concat (map (\<lambda>(u, obs). map (g u) (elements obs)) (entries units)))"
proof -
  have "\<forall>kv \<in> set (entries units).
          (\<lambda>(key_units, value_units).
             andthen (iter value_units) (\<lambda>obs.
               for_each (\<lambda>row_list. andthen (row key_units row_list) (\<lambda>r. Inr [r])) obs)) kv
          = Inr ((\<lambda>(u, obs). map (g u) (elements obs)) kv)"
    using assms(1) observations_rows[where row = "row u" and g = "g u" for u] assms(2)
    by (auto simp: valid_units_def list_all_iff)
  then show ?thesis
    using assms(1) for_each_Inr
    by (simp add: valid_units_def items_is_dict andthen_def)
qed

lemma dict_display_Inr:
  "dict_display (map (\<lambda>(k, v). (k, Inr v)) kvs) = Inr kvs"
  by (induction kvs) (auto simp: andthen_def)





lemma companyfacts_row_valid:
  assumes "list_all (has_key raw) [''cik'', ''entityName'', ''facts'']"
    and "list_all (has_key tagv) [''label'', ''description'', ''units'']"
    and "is_dict ob"
  shows "companyfacts_row raw tx tg tagv u ob =
     Inr (zip companyfacts_columns
       ([field raw ''cik'', field raw ''entityName'', PStr tx, PStr tg, field tagv ''label'',
         field tagv ''description'', PStr u] @ map (field ob) obs_fields))"
  using assms
  by (simp add: companyfacts_row_def getitem_has_key dict_get_is_dict andthen_def
      companyfacts_columns_def obs_fields_def)

lemma companyfacts_tag_rows:
  assumes "list_all (has_key raw) [''cik'', ''entityName'', ''facts'']" and "valid_tag tagv"
  shows "andthen (getitem tagv ''units'') (\<lambda>units.
         andthen (items units) (\<lambda>unit_items.
           for_each (\<lambda>(key_units, value_units).
             andthen (iter value_units) (\<lambda>obs.
               for_each (\<lambda>row_list.
                 andthen (companyfacts_row raw tx tg tagv key_units row_list) (\<lambda>r. Inr [r])) obs))
             unit_items))
       = Inr (map (zip companyfacts_columns)
           [ [field raw ''cik'', field raw ''entityName'', PStr tx, PStr tg, field tagv ''label'',
              field tagv ''description'', PStr u] @ map (field ob) obs_fields.
             (u, obs) \<leftarrow> entries (field tagv ''units''), ob \<leftarrow> elements obs ])"
proof -
  let ?g = "\<lambda>u ob. zip companyfacts_columns
       ([field raw ''cik'', field raw ''entityName'', PStr tx, PStr tg, field tagv ''label'',
         field tagv ''description'', PStr u] @ map (field ob) obs_fields)"
  from assms(2) have keys: "list_all (has_key tagv) [''label'', ''description'', ''units'']"
    and units: "valid_units (field tagv ''units'')"
    by (simp_all add: valid_tag_def)
  have row: "\<And>u ob. is_dict ob \<Longrightarrow> companyfacts_row raw tx tg tagv u ob = Inr (?g u ob)"
    using assms(1) keys by (rule companyfacts_row_valid)
  have "getitem tagv ''units'' = Inr (field tagv ''units'')"
    using keys by (simp add: getitem_has_key)
  then have "andthen (getitem tagv ''units'') (\<lambda>units.
         andthen (items units) (\<lambda>unit_items.
           for_each (\<lambda>(key_units, value_units).
             andthen (iter value_units) (\<lambda>obs.
               for_each (\<lambda>row_list.
                 andthen (companyfacts_row raw tx tg tagv key_units row_list) (\<lambda>r. Inr [r])) obs))
             unit_items))
      = Inr (concat (map (\<lambda>(u, obs). map (?g u) (elements obs)) (entries (field tagv ''units''))))"
    using units_rows[OF units, where row = "companyfacts_row raw tx tg tagv" and g = ?g] row
    by (simp add: andthen_def)
  also have "concat (map (\<lambda>(u, obs). map (?g u) (elements obs)) (entries (field tagv ''units'')))
      = map (zip companyfacts_columns)
           [ [field raw ''cik'', field raw ''entityName'', PStr tx, PStr tg, field tagv ''label'',
              field tagv ''description'', PStr u] @ map (field ob) obs_fields.
             (u, obs) \<leftarrow> entries (field tagv ''units''), ob \<leftarrow> elements obs ]"
    by (simp add: map_concat comp_def case_prod_unfold)
  finally show ?thesis .
qed

lemma companyfacts_records_valid:
  assumes "valid_companyfacts raw"
  shows "companyfacts_records raw =
    Inr (map (zip companyfacts_columns) (spec_companyfacts_rows raw))"
proof -
  let ?tagrows = "\<lambda>tx tg tagv.
           [ [field raw ''cik'', field raw ''entityName'', PStr tx, PStr tg, field tagv ''label'',
              field tagv ''description'', PStr u] @ map (field ob) obs_fields.
             (u, obs) \<leftarrow> entries (field tagv ''units''), ob \<leftarrow> elements obs ]"
  from assms have keys: "list_all (has_key raw) [''cik'', ''entityName'', ''facts'']"
    and facts: "is_dict (field raw ''facts'')"
    and taxes: "\<forall>tx \<in> set (entries (field raw ''facts'')).
        is_dict (snd tx) \<and> (\<forall>tg \<in> set (entries (snd tx)). valid_tag (snd tg))"
    by (simp_all add: valid_companyfacts_def list_all_iff)
  have tax: "(\<lambda>(key_taxonomy, value_taxonomy).
         andthen (items value_taxonomy) (\<lambda>tag_items.
           for_each (\<lambda>(key_tag, value_tag).
             andthen (getitem value_tag ''units'') (\<lambda>units.
             andthen (items units) (\<lambda>unit_items.
               for_each (\<lambda>(key_units, value_units).
                 andthen (iter value_units) (\<lambda>obs.
                   for_each (\<lambda>row_list.
                     andthen (companyfacts_row raw key_taxonomy key_tag value_tag
                                key_units row_list) (\<lambda>r. Inr [r])) obs))
                 unit_items)))
             tag_items)) txe
       = Inr ((\<lambda>(tx, tags). concat (map (\<lambda>(tg, tagv).
            map (zip companyfacts_columns) (?tagrows tx tg tagv)) (entries tags))) txe)"
    if "txe \<in> set (entries (field raw ''facts''))" for txe
  proof -
    obtain tx tags where txe: "txe = (tx, tags)" by (cases txe)
    from that taxes txe have d: "is_dict tags" and tv: "\<forall>tg \<in> set (entries tags). valid_tag (snd tg)"
      by auto
    have "\<forall>tge \<in> set (entries tags).
        (\<lambda>(key_tag, value_tag).
             andthen (getitem value_tag ''units'') (\<lambda>units.
             andthen (items units) (\<lambda>unit_items.
               for_each (\<lambda>(key_units, value_units).
                 andthen (iter value_units) (\<lambda>obs.
                   for_each (\<lambda>row_list.
                     andthen (companyfacts_row raw tx key_tag value_tag
                                key_units row_list) (\<lambda>r. Inr [r])) obs))
                 unit_items))) tge
        = Inr ((\<lambda>(tg, tagv). map (zip companyfacts_columns) (?tagrows tx tg tagv)) tge)"
      using tv companyfacts_tag_rows[OF keys] by (auto simp: case_prod_unfold)
    then show ?thesis
      using d for_each_Inr unfolding txe
      by (simp add: items_is_dict andthen_def)
  qed
  have "getitem raw ''facts'' = Inr (field raw ''facts'')"
    using keys by (simp add: getitem_has_key)
  then have "companyfacts_records raw =
      Inr (concat (map (\<lambda>(tx, tags). concat (map (\<lambda>(tg, tagv).
            map (zip companyfacts_columns) (?tagrows tx tg tagv)) (entries tags)))
          (entries (field raw ''facts''))))"
    using facts for_each_Inr[of "entries (field raw ''facts'')", OF ballI, OF tax]
    by (simp add: companyfacts_records_def items_is_dict andthen_def)
  also have "concat (map (\<lambda>(tx, tags). concat (map (\<lambda>(tg, tagv).
            map (zip companyfacts_columns) (?tagrows tx tg tagv)) (entries tags)))
          (entries (field raw ''facts'')))
      = map (zip companyfacts_columns) (spec_companyfacts_rows raw)"
    by (simp add: spec_companyfacts_rows_def map_concat comp_def case_prod_unfold)
  finally show ?thesis .
qed

lemma spec_companyfacts_rows_length:
  "r \<in> set (spec_companyfacts_rows raw) \<Longrightarrow> length r = length companyfacts_columns"
  by (auto simp: spec_companyfacts_rows_def companyfacts_columns_def obs_fields_def)

lemma get_companyfacts_valid:
  assumes "valid_companyfacts raw"
    and "send (companyfacts_request cik header_email) = Completed st (Some raw)"
  shows "get_companyfacts send cik header_email =
     Inr (table companyfacts_columns (spec_companyfacts_rows raw))"
proof -
  have "distinct companyfacts_columns"
    by (simp add: companyfacts_columns_def obs_fields_def)
  then have "from_records_list (map (zip companyfacts_columns) (spec_companyfacts_rows raw))
      = table companyfacts_columns (spec_companyfacts_rows raw)"
    by (rule from_records_list_table) (simp add: spec_companyfacts_rows_length)
  then show ?thesis
    using companyfacts_records_valid[OF assms(1)] assms(2)
    by (simp add: get_companyfacts_def get_json_def andthen_def)
qed








subsection \<open>Helper lemmas: subscripting a document that lacks the key\<close>


lemma getitem_no_key:
  "\<not> has_key v k \<Longrightarrow> getitem v k = Inl TypeError \<or> getitem v k = Inl (KeyError k)"
  by (cases v) (auto simp: has_key_def)



subsection \<open>Helper lemmas: a frame from parallel arrays\<close>







subsection \<open>Helper lemmas: decimal numerals\<close>

lemma digit_char: "d < 10 \<Longrightarrow> (of_char (char_of (48 + d :: nat)) :: nat) = 48 + d"
  by (simp add: of_char_of)

lemma digits_all_digits: "\<forall>c \<in> set (digits n). is_digit c"
proof (induction n rule: digits.induct)
  case (1 n)
  show ?case
  proof (cases "n < 10")
    case True
    then show ?thesis
      by (subst digits.simps) (simp add: is_digit_def digit_char)
  next
    case False
    have "n mod 10 < 10" by simp
    then have "is_digit (char_of (48 + n mod 10))"
      by (simp add: is_digit_def digit_char)
    with False 1 show ?thesis
      by (subst digits.simps) auto
  qed
qed

lemma decimal_value_snoc:
  "decimal_value (s @ [c]) = 10 * decimal_value s + (of_char c - 48)"
  by (simp add: decimal_value_def)

lemma decimal_value_digits: "decimal_value (digits n) = n"
proof (induction n rule: digits.induct)
  case (1 n)
  show ?case
  proof (cases "n < 10")
    case True
    then show ?thesis
      by (subst digits.simps) (simp add: decimal_value_def digit_char)
  next
    case False
    have "n mod 10 < 10" by simp
    then have "(of_char (char_of (48 + n mod 10)) :: nat) - 48 = n mod 10"
      by (simp add: digit_char)
    with False 1 show ?thesis
      by (subst digits.simps) (simp add: decimal_value_snoc)
  qed
qed

lemma decimal_value_zeros: "decimal_value (replicate k CHR ''0'' @ s) = decimal_value s"
proof -
  have "foldl (\<lambda>acc c. 10 * acc + (of_char c - 48)) 0 (replicate k CHR ''0'') = (0::nat)"
    by (induction k) simp_all
  then show ?thesis
    by (simp add: decimal_value_def)
qed

lemma length_digits: "0 < k \<Longrightarrow> n < 10 ^ k \<Longrightarrow> length (digits n) \<le> k"
proof (induction n arbitrary: k rule: digits.induct)
  case (1 n)
  show ?case
  proof (cases "n < 10")
    case True
    with 1(2) show ?thesis
      by (subst digits.simps) simp
  next
    case False
    obtain j where k: "k = Suc j"
      using 1(2) by (cases k) auto
    have "j \<noteq> 0"
      using False 1(3) k by (cases j) auto
    moreover have "n div 10 < 10 ^ j"
      using 1(3) k by (simp add: less_mult_imp_div_less mult.commute)
    ultimately have "length (digits (n div 10)) \<le> j"
      using 1(1)[OF False, of j] by simp
    with False k show ?thesis
      by (subst digits.simps) simp
  qed
qed

lemma length_digits_pos: "0 < length (digits n)"
  by (subst digits.simps) simp

subsection \<open>Helper lemmas: the ticker list and its two modes\<close>

lemma map_of_zip_replace:
  "map_of (zip cols (map2 (\<lambda>h x. if h = k then v else x) cols r)) c =
     (if c = k then map_option (\<lambda>x. v) (map_of (zip cols r) c) else map_of (zip cols r) c)"
proof (induction cols arbitrary: r)
  case Nil
  then show ?case by simp
next
  case (Cons h cols)
  then show ?case by (cases r) auto
qed

lemma cell_set_column:
  assumes "PStr k \<in> set (columns df)" and "length vals = length (rows df)" and "i < length (rows df)"
  shows "cell (set_column df k vals) i c =
     (if c = k then map_option (\<lambda>x. vals ! i) (cell df i c) else cell df i c)"
  using assms by (simp add: cell_def set_column_def map_of_zip_replace)

lemma column_set_column:
  assumes "PStr k \<in> set (columns df)" and "length vals = length (rows df)" and "c \<noteq> k"
  shows "column (set_column df k vals) c = column df c"
proof -
  have "length (rows (set_column df k vals)) = length (rows df)"
    using assms(1,2) by (simp add: set_column_def)
  then show ?thesis
    using assms by (simp add: column_def cell_set_column)
qed

lemma companytickers_modes:
  assumes "get_companytickers lib send False = Inr df"
  shows "columns df = [PStr ''cik'', PStr ''ticker'', PStr ''title'']"
    and "\<exists>col. get_column df ''cik'' = Inr col \<and> length col = length (rows df) \<and>
           (\<forall>i < length (rows df). \<forall>v. cell df i ''cik'' = Some v \<longrightarrow> col ! i = v) \<and>
           get_companytickers lib send True =
             Inr (set_column df ''cik''
                  (map PStr (str_add ''CIK'' (str_pad 10 CHR ''0'' (astype_str lib col)))))"
proof -
  from assms obtain raw df0 where raw: "get_json send companytickers_request = Inr raw"
    and df0: "from_records lib raw = Inr df0"
    and df: "set_columns (reset_index_drop (transpose_df df0))
                [PStr ''cik'', PStr ''ticker'', PStr ''title''] = Inr df"
    by (auto simp: get_companytickers_def andthen_def split: sum.splits)
  from df show cols: "columns df = [PStr ''cik'', PStr ''ticker'', PStr ''title'']"
    by (auto simp: set_columns_def split: if_splits)
  let ?col = "map (\<lambda>r. case map_of (zip (columns df) r) (PStr ''cik'') of None \<Rightarrow> nan | Some v \<Rightarrow> v)
                (rows df)"
  have gc: "get_column df ''cik'' = Inr ?col"
    using cols by (simp add: get_column_def)
  have "get_companytickers lib send True =
             Inr (set_column df ''cik''
                  (map PStr (str_add ''CIK'' (str_pad 10 CHR ''0'' (astype_str lib ?col)))))"
    using raw df0 df gc by (simp add: get_companytickers_def andthen_def)
  moreover have "\<forall>i < length (rows df). \<forall>v. cell df i ''cik'' = Some v \<longrightarrow> ?col ! i = v"
    by (simp add: cell_def)
  ultimately show "\<exists>col. get_column df ''cik'' = Inr col \<and> length col = length (rows df) \<and>
           (\<forall>i < length (rows df). \<forall>v. cell df i ''cik'' = Some v \<longrightarrow> col ! i = v) \<and>
           get_companytickers lib send True =
             Inr (set_column df ''cik''
                  (map PStr (str_add ''CIK'' (str_pad 10 CHR ''0'' (astype_str lib col)))))"
    using gc by (intro exI[of _ ?col]) simp
qed

lemma companytickers_modes_error:
  assumes "get_companytickers lib send False = Inl e"
  shows "get_companytickers lib send True = Inl e"
  using assms
  by (auto simp: get_companytickers_def andthen_def split: sum.splits)

lemma foldl_first_seen_set:
  "set (foldl (\<lambda>acc x. if x \<in> set acc then acc else acc @ [x]) acc xs) = set acc \<union> set xs"
  by (induction xs arbitrary: acc) auto

lemma foldl_first_seen_distinct:
  "distinct acc \<Longrightarrow> distinct (foldl (\<lambda>acc x. if x \<in> set acc then acc else acc @ [x]) acc xs)"
  by (induction xs arbitrary: acc) auto

lemma set_first_seen: "set (first_seen xs) = set xs"
  by (simp add: first_seen_def foldl_first_seen_set)

lemma distinct_first_seen: "distinct (first_seen xs)"
  by (simp add: first_seen_def foldl_first_seen_distinct)

lemma length_first_seen: "length (first_seen xs) = card (set xs)"
  using distinct_card[OF distinct_first_seen, of xs] by (simp add: set_first_seen)

lemma is_dict_not_list: "is_dict v \<Longrightarrow> \<not> is_list v"
  by (cases v) auto

lemma from_records_dict_dicts:
  assumes "d \<noteq> []" and "\<forall>kv \<in> set d. is_dict (snd kv)"
  shows "from_records_dict lib d =
     Inr \<lparr> index = map PStr (first_seen (concat (map (\<lambda>a. map fst (entries a))
                                                    (map snd (sort_key fst d))))),
           columns = map (\<lambda>kv. PStr (fst kv)) (sort_key fst d),
           rows = map (\<lambda>k. map (\<lambda>a. field a k) (map snd (sort_key fst d)))
                    (first_seen (concat (map (\<lambda>a. map fst (entries a))
                                           (map snd (sort_key fst d))))) \<rparr>"
proof -
  let ?arrays = "map snd (sort_key fst d)"
  have ne: "?arrays \<noteq> []"
    using assms(1) by (metis length_0_conv length_map length_sort)
  have all: "\<forall>a \<in> set ?arrays. is_dict a"
    using assms(2) by auto
  have "hd ?arrays \<in> set ?arrays"
    using ne by (rule hd_in_set)
  then have "\<not> list_all is_list ?arrays"
    using all is_dict_not_list by (auto simp: list_all_iff)
  moreover have "list_all is_dict ?arrays"
    using all by (simp add: list_all_iff)
  ultimately show ?thesis
    using assms(1) by (simp add: from_records_dict_def Let_def)
qed

lemma transpose_rows:
  "map (\<lambda>j. map (\<lambda>r. r ! j) (map (\<lambda>k. map (\<lambda>a. f a k) arrays) idx)) [0..<length arrays]
   = map (\<lambda>a. map (f a) idx) arrays"
  by (rule nth_equalityI) (simp_all add: comp_def)

lemma get_companytickers_valid:
  assumes "valid_companytickers raw"
    and "send companytickers_request = Completed st (Some raw)"
  shows "get_companytickers lib send False =
     Inr \<lparr> index = range_index (length (entries raw)),
           columns = [PStr ''cik'', PStr ''ticker'', PStr ''title''],
           rows = map (\<lambda>a. map (field a)
                      (first_seen (concat (map (\<lambda>a. map fst (entries a))
                                            (map snd (sort_key fst (entries raw)))))))
                    (map snd (sort_key fst (entries raw))) \<rparr>"
proof -
  let ?d = "entries raw"
  let ?arrays = "map snd (sort_key fst ?d)"
  let ?idx = "first_seen (concat (map (\<lambda>a. map fst (entries a)) ?arrays))"
  from assms(1) have d: "is_dict raw" "?d \<noteq> []" "\<forall>kv \<in> set ?d. is_dict (snd kv)"
    and three: "length (first_seen (concat (map (\<lambda>kv. map fst (entries (snd kv))) ?d))) = 3"
    by (simp_all add: valid_companytickers_def list_all_iff)
  have raw: "raw = PDict ?d"
    using d(1) by (cases raw) auto
  have "set (concat (map (\<lambda>a. map fst (entries a)) ?arrays))
        = set (concat (map (\<lambda>kv. map fst (entries (snd kv))) ?d))"
    by auto
  then have len: "length ?idx = 3"
    using three by (simp add: length_first_seen)
  have fr: "from_records lib raw =
     Inr \<lparr> index = map PStr ?idx,
           columns = map (\<lambda>kv. PStr (fst kv)) (sort_key fst ?d),
           rows = map (\<lambda>k. map (\<lambda>a. field a k) ?arrays) ?idx \<rparr>"
    using from_records_dict_dicts[OF d(2,3)] by (subst raw) (simp add: from_records_def)
  have tr: "reset_index_drop (transpose_df
       \<lparr> index = map PStr ?idx,
         columns = map (\<lambda>kv. PStr (fst kv)) (sort_key fst ?d),
         rows = map (\<lambda>k. map (\<lambda>a. field a k) ?arrays) ?idx \<rparr>)
     = \<lparr> index = range_index (length ?d), columns = map PStr ?idx,
         rows = map (\<lambda>a. map (field a) ?idx) ?arrays \<rparr>"
    using transpose_rows[of field ?arrays ?idx]
    by (simp add: reset_index_drop_def transpose_df_def)
  show ?thesis
    using assms(2) fr tr len
    by (simp add: get_companytickers_def get_json_def andthen_def set_columns_def)
qed

lemma example_tickers_frame:
  "get_companytickers lib (\<lambda>req. Completed st (Some example_tickers)) False =
     Inr \<lparr> index = [PInt 0, PInt 1],
           columns = [PStr ''cik'', PStr ''ticker'', PStr ''title''],
           rows = [[PInt 320193, PStr ''AAPL'', PStr ''Apple Inc.''],
                   [PInt 789019, PStr ''MSFT'', PStr ''MICROSOFT CORP'']] \<rparr>"
proof -
  have v: "valid_companytickers example_tickers"
    by (simp add: valid_companytickers_def example_tickers_def first_seen_def)
  have s: "sort_key fst (entries example_tickers) = entries example_tickers"
    by (rule sort_key_id_if_sorted) (simp add: example_tickers_def)
  show ?thesis
    using get_companytickers_valid[where send = "\<lambda>req. Completed st (Some example_tickers)", OF v]
    unfolding s
    by (simp add: example_tickers_def first_seen_def field_def range_index_def upt_rec)
qed


subsection \<open>Helper lemmas: keys an operation does not read\<close>

























subsection \<open>Helper lemmas: what an operation takes from the exchange\<close>

lemma get_json_status:
  "send req = Completed st body \<Longrightarrow> get_json send req = get_json (\<lambda>r. Completed st' body) req"
  by (simp add: get_json_def)






subsection \<open>Helper lemmas: complete rows\<close>













section \<open>The claims\<close>





text \<open>
  C6 (corrected). The claim: given a completed exchange whose body parses, \<open>get_companyfacts\<close>
  fails with a format error if and only if the top-level \<^verbatim>\<open>facts\<close> section is absent. The
  code also subscripts \<^verbatim>\<open>cik\<close> and \<^verbatim>\<open>entityName\<close> of the document and \<^verbatim>\<open>label\<close>,
  \<^verbatim>\<open>description\<close> and \<^verbatim>\<open>units\<close> of every tag: a document that has \<^verbatim>\<open>facts\<close> and one
  observation but no \<^verbatim>\<open>cik\<close> raises KeyError.
\<close>

theorem companyfacts_format_error_counterexample:
  "has_key example_facts_no_cik ''facts'' \<and>
   get_companyfacts (\<lambda>req. Completed 200 (Some example_facts_no_cik))
     ''CIK0000320193'' ''me@example.org'' = Inl (KeyError ''cik'') \<and>
   is_format_error (KeyError ''cik'')"
  by (simp add: example_facts_no_cik_def has_key_def get_companyfacts_def get_json_def
      companyfacts_records_def companyfacts_row_def andthen_def)

text \<open>
  C6 as amended: when \<^verbatim>\<open>facts\<close> is absent the operation fails with a format error
  (KeyError, or TypeError when the document is not an object); when the document is valid
  (\<^verbatim>\<open>cik\<close>, \<^verbatim>\<open>entityName\<close> and \<^verbatim>\<open>facts\<close> present, every tag an object with \<^verbatim>\<open>label\<close>,
  \<^verbatim>\<open>description\<close> and a units mapping of arrays of objects) it returns a frame.
\<close>

theorem companyfacts_format_error:
  assumes "send (companyfacts_request cik header_email) = Completed st (Some raw)"
    and "send' (companyfacts_request cik' header_email') = Completed st' (Some raw')"
    and "\<not> has_key raw ''facts''"
    and "valid_companyfacts raw'"
  shows "(\<exists>e. get_companyfacts send cik header_email = Inl e \<and> is_format_error e) \<and>
         (\<exists>df. get_companyfacts send' cik' header_email' = Inr df)"
proof -
  have "getitem raw ''facts'' = Inl TypeError \<or> getitem raw ''facts'' = Inl (KeyError ''facts'')"
    using assms(3) by (rule getitem_no_key)
  then have "companyfacts_records raw = Inl TypeError
      \<or> companyfacts_records raw = Inl (KeyError ''facts'')"
    by (auto simp: companyfacts_records_def andthen_def)
  then have "\<exists>e. get_companyfacts send cik header_email = Inl e \<and> is_format_error e"
    using assms(1) by (auto simp: get_companyfacts_def get_json_def andthen_def)
  moreover have "\<exists>df. get_companyfacts send' cik' header_email' = Inr df"
    using get_companyfacts_valid[where send = send', OF assms(4) assms(2)] by blast
  ultimately show ?thesis by blast
qed

theorem companyfacts_format_error_witness:
  "\<not> has_key example_no_facts ''facts'' \<and> valid_companyfacts example_facts \<and>
   (\<exists>e. get_companyfacts (\<lambda>req. Completed 200 (Some example_no_facts))
           ''CIK0000320193'' ''me@example.org'' = Inl e \<and> is_format_error e) \<and>
   (\<exists>df. get_companyfacts (\<lambda>req. Completed 200 (Some example_facts))
           ''CIK0000320193'' ''me@example.org'' = Inr df)"
proof -
  have a: "\<not> has_key example_no_facts ''facts''"
    by (simp add: example_no_facts_def has_key_def)
  have b: "valid_companyfacts example_facts"
    by (simp add: valid_companyfacts_def example_facts_def has_key_def field_def
        valid_tag_def valid_units_def valid_observations_def)
  have "(\<exists>e. get_companyfacts (\<lambda>req. Completed 200 (Some example_no_facts))
           ''CIK0000320193'' ''me@example.org'' = Inl e \<and> is_format_error e) \<and>
   (\<exists>df. get_companyfacts (\<lambda>req. Completed 200 (Some example_facts))
           ''CIK0000320193'' ''me@example.org'' = Inr df)"
    by (rule companyfacts_format_error[where st = 200 and st' = 200
          and raw = example_no_facts and raw' = example_facts])
       (simp_all add: a b)
  then show ?thesis using a b by blast
qed








text \<open>
  C5. With the padded-identifier flag, an identifier is rendered as \<^verbatim>\<open>CIK\<close> followed by
  its decimal digits, padded with zeros on the left to ten digits: the row that holds
  the integer \<open>n \<ge> 0\<close> without the flag holds with the flag \<^verbatim>\<open>CIK\<close> and digit characters
  whose decimal value is \<open>n\<close>, zeros first; there are exactly ten of them when \<open>n\<close> is a
  CIK, that is \<open>n < 10^10\<close> (padding never truncates). For 320193 this is
  \<^verbatim>\<open>CIK0000320193\<close>.
\<close>

theorem companytickers_padded_identifier:
  assumes "get_companytickers lib send False = Inr df0"
    and "i < length (rows df0)"
    and "cell df0 i ''cik'' = Some (PInt n)"
    and "0 \<le> n"
  shows "\<exists>df1 ds. get_companytickers lib send True = Inr df1
     \<and> cell df1 i ''cik'' = Some (PStr (''CIK'' @ ds))
     \<and> ds = replicate (10 - length (digits (nat n))) CHR ''0'' @ digits (nat n)
     \<and> (\<forall>c \<in> set ds. is_digit c)
     \<and> decimal_value ds = nat n
     \<and> 10 \<le> length ds
     \<and> (n < 10 ^ 10 \<longrightarrow> length ds = 10)"
proof -
  let ?ds = "replicate (10 - length (digits (nat n))) CHR ''0'' @ digits (nat n)"
  from companytickers_modes[OF assms(1)] obtain col
    where cols: "columns df0 = [PStr ''cik'', PStr ''ticker'', PStr ''title'']"
      and len: "length col = length (rows df0)"
      and coli: "\<forall>i < length (rows df0). \<forall>v. cell df0 i ''cik'' = Some v \<longrightarrow> col ! i = v"
      and run: "get_companytickers lib send True =
             Inr (set_column df0 ''cik''
                  (map PStr (str_add ''CIK'' (str_pad 10 CHR ''0'' (astype_str lib col)))))"
    by blast
  let ?vals = "map PStr (str_add ''CIK'' (str_pad 10 CHR ''0'' (astype_str lib col)))"
  have ci: "col ! i = PInt n"
    using coli assms(2,3) by blast
  have "?vals ! i = PStr (''CIK'' @ replicate (10 - length (str_int n)) CHR ''0'' @ str_int n)"
    using assms(2) len ci by (simp add: str_add_def str_pad_def astype_str_def)
  also have "str_int n = digits (nat n)"
    using assms(4) by (simp add: str_int_def)
  finally have vi: "?vals ! i = PStr (''CIK'' @ ?ds)" .
  have "cell (set_column df0 ''cik'' ?vals) i ''cik'' = Some (PStr (''CIK'' @ ?ds))"
    using cell_set_column[of "''cik''" df0 ?vals i "''cik''"] cols len assms(2,3) vi
    by (simp add: str_add_def str_pad_def astype_str_def)
  moreover have "length ?ds = 10" if "n < 10 ^ 10"
  proof -
    have "nat n < 10 ^ 10"
      using assms(4) that by (simp add: nat_less_iff)
    then have "length (digits (nat n)) \<le> 10"
      by (intro length_digits) simp_all
    then show ?thesis
      by simp
  qed
  moreover have "10 \<le> length ?ds"
    by simp
  moreover have "\<forall>c \<in> set ?ds. is_digit c"
    using digits_all_digits[of "nat n"] by (auto simp: is_digit_def)
  moreover have "decimal_value ?ds = nat n"
    by (simp add: decimal_value_zeros decimal_value_digits)
  ultimately show ?thesis
    using run by blast
qed

theorem companytickers_padded_identifier_witness:
  "(0::int) \<le> 320193 \<and> (320193::int) < 10 ^ 10 \<and>
   (\<forall>lib. \<exists>df0 df1.
      get_companytickers lib (\<lambda>req. Completed 200 (Some example_tickers)) False = Inr df0
      \<and> 0 < length (rows df0)
      \<and> cell df0 0 ''cik'' = Some (PInt 320193)
      \<and> get_companytickers lib (\<lambda>req. Completed 200 (Some example_tickers)) True = Inr df1
      \<and> cell df1 0 ''cik'' = Some (PStr (''CIK'' @ ''0000320193'')))"
proof -
  let ?df0 = "\<lparr> index = [PInt 0, PInt 1],
           columns = [PStr ''cik'', PStr ''ticker'', PStr ''title''],
           rows = [[PInt 320193, PStr ''AAPL'', PStr ''Apple Inc.''],
                   [PInt 789019, PStr ''MSFT'', PStr ''MICROSOFT CORP'']] \<rparr>"
  have d: "digits 320193 = ''320193''"
    by (simp add: digits.simps) code_simp
  have n: "nat 320193 = (320193::nat)" by simp
  have z: "replicate (10 - length ''320193'') CHR ''0'' = ''0000''"
    by code_simp
  have pad: "replicate (10 - length (digits (nat 320193))) CHR ''0'' @ digits (nat 320193)
             = ''0000320193''"
    using n z by (simp only: d) simp
  have "\<exists>df0 df1.
      get_companytickers lib (\<lambda>req. Completed 200 (Some example_tickers)) False = Inr df0
      \<and> 0 < length (rows df0)
      \<and> cell df0 0 ''cik'' = Some (PInt 320193)
      \<and> get_companytickers lib (\<lambda>req. Completed 200 (Some example_tickers)) True = Inr df1
      \<and> cell df1 0 ''cik'' = Some (PStr (''CIK'' @ ''0000320193''))" for lib
  proof -
    have f: "get_companytickers lib (\<lambda>req. Completed 200 (Some example_tickers)) False = Inr ?df0"
      by (rule example_tickers_frame)
    have i: "0 < length (rows ?df0)" by simp
    have c: "cell ?df0 0 ''cik'' = Some (PInt 320193)" by (simp add: cell_def)
    from companytickers_padded_identifier[OF f i c]
    obtain df1 ds where
      "get_companytickers lib (\<lambda>req. Completed 200 (Some example_tickers)) True = Inr df1"
      "cell df1 0 ''cik'' = Some (PStr (''CIK'' @ ds))"
      "ds = replicate (10 - length (digits (nat 320193))) CHR ''0'' @ digits (nat 320193)"
      by auto
    then show ?thesis
      using f i c unfolding pad by blast
  qed
  then show ?thesis by simp
qed


text \<open>
  C10. The padded-identifier flag changes the cik column only: on every exchange the two
  modes fail together with the same exception, or both return a frame, with the same
  row labels, the same columns, the same number of rows, and the same ticker and title
  columns from the first row to the last.
\<close>

theorem companytickers_flag_only_cik:
  "(\<forall>e. get_companytickers lib send False = Inl e \<longrightarrow>
          get_companytickers lib send True = Inl e) \<and>
   (\<forall>df0. get_companytickers lib send False = Inr df0 \<longrightarrow>
      (\<exists>df1. get_companytickers lib send True = Inr df1
         \<and> index df1 = index df0
         \<and> columns df1 = columns df0
         \<and> length (rows df1) = length (rows df0)
         \<and> column df1 ''ticker'' = column df0 ''ticker''
         \<and> column df1 ''title'' = column df0 ''title''))"
proof (intro conjI allI impI)
  fix e assume "get_companytickers lib send False = Inl e"
  then show "get_companytickers lib send True = Inl e"
    by (rule companytickers_modes_error)
next
  fix df0 assume f: "get_companytickers lib send False = Inr df0"
  from companytickers_modes[OF f] obtain col
    where cols: "columns df0 = [PStr ''cik'', PStr ''ticker'', PStr ''title'']"
      and len: "length col = length (rows df0)"
      and run: "get_companytickers lib send True =
             Inr (set_column df0 ''cik''
                  (map PStr (str_add ''CIK'' (str_pad 10 CHR ''0'' (astype_str lib col)))))"
    by blast
  let ?vals = "map PStr (str_add ''CIK'' (str_pad 10 CHR ''0'' (astype_str lib col)))"
  let ?df1 = "set_column df0 ''cik'' ?vals"
  have lv: "length ?vals = length (rows df0)"
    using len by (simp add: str_add_def str_pad_def astype_str_def)
  have mem: "PStr ''cik'' \<in> set (columns df0)"
    using cols by simp
  have "index ?df1 = index df0" "columns ?df1 = columns df0"
    "length (rows ?df1) = length (rows df0)"
    using mem lv by (simp_all add: set_column_def)
  moreover have "column ?df1 ''ticker'' = column df0 ''ticker''"
    "column ?df1 ''title'' = column df0 ''title''"
    using column_set_column[OF mem lv] by simp_all
  ultimately show "\<exists>df1. get_companytickers lib send True = Inr df1
         \<and> index df1 = index df0
         \<and> columns df1 = columns df0
         \<and> length (rows df1) = length (rows df0)
         \<and> column df1 ''ticker'' = column df0 ''ticker''
         \<and> column df1 ''title'' = column df0 ''title''"
    using run by blast
qed

theorem companytickers_flag_only_cik_witness:
  "\<forall>lib. \<exists>df0 df1.
      get_companytickers lib (\<lambda>req. Completed 200 (Some example_tickers)) False = Inr df0
      \<and> get_companytickers lib (\<lambda>req. Completed 200 (Some example_tickers)) True = Inr df1
      \<and> length (rows df1) = 2
      \<and> index df1 = [PInt 0, PInt 1]
      \<and> column df0 ''ticker'' = [Some (PStr ''AAPL''), Some (PStr ''MSFT'')]
      \<and> column df1 ''ticker'' = [Some (PStr ''AAPL''), Some (PStr ''MSFT'')]
      \<and> column df1 ''title'' = [Some (PStr ''Apple Inc.''), Some (PStr ''MICROSOFT CORP'')]"
proof
  fix lib
  let ?df0 = "\<lparr> index = [PInt 0, PInt 1],
           columns = [PStr ''cik'', PStr ''ticker'', PStr ''title''],
           rows = [[PInt 320193, PStr ''AAPL'', PStr ''Apple Inc.''],
                   [PInt 789019, PStr ''MSFT'', PStr ''MICROSOFT CORP'']] \<rparr>"
  have f: "get_companytickers lib (\<lambda>req. Completed 200 (Some example_tickers)) False = Inr ?df0"
    by (rule example_tickers_frame)
  from companytickers_flag_only_cik[of lib "\<lambda>req. Completed 200 (Some example_tickers)"] f
  obtain df1 where t: "get_companytickers lib (\<lambda>req. Completed 200 (Some example_tickers)) True = Inr df1"
    and same: "index df1 = index ?df0" "length (rows df1) = length (rows ?df0)"
      "column df1 ''ticker'' = column ?df0 ''ticker''"
      "column df1 ''title'' = column ?df0 ''title''"
    by blast
  have c0: "column ?df0 ''ticker'' = [Some (PStr ''AAPL''), Some (PStr ''MSFT'')]"
    "column ?df0 ''title'' = [Some (PStr ''Apple Inc.''), Some (PStr ''MICROSOFT CORP'')]"
    by (simp_all add: column_def cell_def upt_rec)
  show "\<exists>df0 df1.
      get_companytickers lib (\<lambda>req. Completed 200 (Some example_tickers)) False = Inr df0
      \<and> get_companytickers lib (\<lambda>req. Completed 200 (Some example_tickers)) True = Inr df1
      \<and> length (rows df1) = 2
      \<and> index df1 = [PInt 0, PInt 1]
      \<and> column df0 ''ticker'' = [Some (PStr ''AAPL''), Some (PStr ''MSFT'')]
      \<and> column df1 ''ticker'' = [Some (PStr ''AAPL''), Some (PStr ''MSFT'')]
      \<and> column df1 ''title'' = [Some (PStr ''Apple Inc.''), Some (PStr ''MICROSOFT CORP'')]"
    using f t same c0 by (intro exI[of _ ?df0] exI[of _ df1]) simp
qed










end
